theory Spec2Isabelle
  imports Complex_Main "HOL-Library.Option_ord"
begin

section \<open>Python values used by the recipe\<close>

text \<open>
  Python floats are modelled as reals: rounding, overflow and NaN are outside this
  development. Every exception the modelled code can raise is a value of \<open>py_error\<close>.
\<close>

datatype py_error =
  ValueError | IndexError | KeyError | OverflowError | TypeError | ExpatError | OSError

text \<open>
  A value in decibels is a float that may be minus infinity, which is what
  \<^verbatim>\<open>np.log10\<close> returns at zero: \<open>None\<close> is minus infinity, below every \<open>Some x\<close>.
\<close>

type_synonym decibel = "real option"

text \<open>Sequencing of fallible steps: the first exception raised wins.\<close>

definition bind_err :: "py_error + 'a \<Rightarrow> ('a \<Rightarrow> py_error + 'b) \<Rightarrow> py_error + 'b" where
  "bind_err m f = (case m of Inl e \<Rightarrow> Inl e | Inr x \<Rightarrow> f x)"

text \<open>\<^verbatim>\<open>min(xs)\<close>: ValueError on an empty sequence; otherwise the running best is replaced
  only by a strictly smaller item.\<close>

fun py_min :: "'a::linorder list \<Rightarrow> py_error + 'a" where
  "py_min [] = Inl ValueError"
| "py_min (x # xs) = Inr (foldl (\<lambda>best item. if item < best then item else best) x xs)"

text \<open>\<^verbatim>\<open>xs.index(v)\<close>: the first position holding a value equal to \<open>v\<close>, ValueError if none.\<close>

fun py_index :: "'a list \<Rightarrow> 'a \<Rightarrow> py_error + nat" where
  "py_index [] v = Inl ValueError"
| "py_index (x # xs) v =
     (if x = v then Inr 0
      else (case py_index xs v of Inl e \<Rightarrow> Inl e | Inr i \<Rightarrow> Inr (Suc i)))"

text \<open>\<^verbatim>\<open>xs[i]\<close> for a list and a non-negative index: IndexError out of range.\<close>

definition py_nth :: "'a list \<Rightarrow> nat \<Rightarrow> py_error + 'a" where
  "py_nth xs i = (if i < length xs then Inr (xs ! i) else Inl IndexError)"

text \<open>
  \<^verbatim>\<open>series[i]\<close> for a column of a pandas DataFrame on the default integer index
  \<open>0, ..., n - 1\<close> and an integer \<open>i\<close>: a lookup by label, so KeyError for every \<open>i\<close> that is
  not one of the labels, the negative ones among them.
\<close>

definition series_getitem :: "'a list \<Rightarrow> int \<Rightarrow> py_error + 'a" where
  "series_getitem xs i =
     (if 0 \<le> i \<and> i < int (length xs) then Inr (xs ! nat i) else Inl KeyError)"

section \<open>Design intent and recipe\<close>

text \<open>Module constants of \<^verbatim>\<open>taper_design_recipe.py\<close>.\<close>

definition um :: real where
  "um = 1 / 1000000"

definition cm :: real where
  "cm = 1 / 100"

text \<open>\<^verbatim>\<open>RoutingTaperDesignIntent\<close>.\<close>

record design_intent =
  narrow_waveguide_routing_loss_per_cm :: real
  max_reflection :: real
  start_length :: real
  stop_length :: real
  num_pts :: int

text \<open>
  Modelled from the spec: the table returned by \<^verbatim>\<open>get_length_sweep\<close>, whose code is not
  part of the sources at hand. The spec describes it as an ordered sequence of
  (length, s11, s21) samples with complex scattering parameters; it is a list of rows here.
  In the code it is a pandas DataFrame with the columns \<^verbatim>\<open>length\<close>, \<^verbatim>\<open>s21\<close> and \<^verbatim>\<open>s11\<close> on
  the default integer index, and the lengths are in metres.
\<close>

record sweep_row =
  length_col :: real
  s21_col :: complex
  s11_col :: complex

type_synonym sweep_table = "sweep_row list"

text \<open>The bias of a layer: \<^verbatim>\<open>None\<close>, a float, or a pair of floats.\<close>

datatype bias_value = BiasNone | BiasFloat real | BiasTuple real real

text \<open>
  One layer of \<^verbatim>\<open>LayerStack.to_dict()\<close>, with the keys \<^verbatim>\<open>to_lbr\<close> reads and the types
  \<^verbatim>\<open>LayerLevel\<close> gives them: the layer numbers and the material may be \<^verbatim>\<open>None\<close>.
\<close>

record layer_info =
  layer_type :: string
  layer_numbers :: "(int \<times> int) option"
  zmin :: real
  thickness :: real
  sidewall_angle :: real
  bias :: bias_value
  material :: "string option"
  background_doping_concentration :: "real option"
  background_doping_ion :: "string option"

type_synonym layer_stack = "(string \<times> layer_info) list"

text \<open>
  \<^verbatim>\<open>RoutingTaperDesignRecipe\<close> with the attributes of its superclass that the class uses.
  \<open>'x\<close> is a cross-section specification, \<open>'c\<close> a component, \<open>'ss\<close> and \<open>'cs\<close> the
  simulation and convergence settings.
\<close>

record ('x, 'c, 'ss, 'cs) recipe =
  cell :: "'x \<Rightarrow> 'x \<Rightarrow> real \<Rightarrow> string \<Rightarrow> 'c"
  material_map :: "string \<rightharpoonup> string"
  layer_stack :: layer_stack
  cross_section1 :: 'x
  cross_section2 :: 'x
  dirpath :: string
  design_intent :: design_intent
  simulation_setup :: 'ss
  convergence_setup :: 'cs
  component :: "'c option"
  length_sweep :: "sweep_table option"
  last_hash :: int

section \<open>Selection of the best component\<close>

text \<open>
  Lines 345 to 372 of \<^verbatim>\<open>eval\<close>: \<open>ind1\<close> and \<open>ind2\<close>, the choice between them, the construction
  of the optimal component and the two result fields. \<open>wtypes\<close> is
  \<^verbatim>\<open>list(typing.get_args(WidthTypes))\<close>. The second operand of \<^verbatim>\<open>or\<close> is read only when
  the first is false.
\<close>

definition get_best_component ::
  "string list \<Rightarrow> ('x, 'c, 'ss, 'cs) recipe \<Rightarrow> real list \<Rightarrow> decibel list \<Rightarrow> sweep_table list
     \<Rightarrow> py_error + ('x, 'c, 'ss, 'cs) recipe" where
  "get_best_component wtypes self optimal_lengths reflection_coefficients length_sweeps =
     bind_err (py_min optimal_lengths) (\<lambda>m1.
     bind_err (py_index optimal_lengths m1) (\<lambda>ind1.
     bind_err (py_min reflection_coefficients) (\<lambda>m2.
     bind_err (py_index reflection_coefficients m2) (\<lambda>ind2.
     bind_err (if ind1 = ind2 then Inr True
               else bind_err (py_nth reflection_coefficients ind1)
                      (\<lambda>r1. Inr (r1 < Some (max_reflection (design_intent self))))) (\<lambda>shortest.
     bind_err (py_nth optimal_lengths (if shortest then ind1 else ind2)) (\<lambda>len.
     bind_err (py_nth wtypes (if shortest then ind1 else ind2)) (\<lambda>wtype.
     bind_err (py_nth length_sweeps (if shortest then ind1 else ind2)) (\<lambda>opt_length_sweep_data.
       Inr (self\<lparr>component :=
                    Some (cell self (cross_section1 self) (cross_section2 self) len wtype),
                  length_sweep := Some opt_length_sweep_data\<rparr>)))))))))"

text \<open>Position \<open>i\<close> holds the smallest value of \<open>xs\<close>, and no earlier position does.\<close>

definition is_first_min :: "'a::linorder list \<Rightarrow> nat \<Rightarrow> bool" where
  "is_first_min xs i \<longleftrightarrow>
     i < length xs \<and> (\<forall>j < length xs. xs ! i \<le> xs ! j) \<and> (\<forall>j < i. xs ! i < xs ! j)"

section \<open>Length-threshold search and the sweep over candidates\<close>

text \<open>\<^verbatim>\<open>10 * np.log10(abs(s) ** 2)\<close> on one sample: minus infinity when the power is zero.\<close>

definition to_dB :: "complex \<Rightarrow> decibel" where
  "to_dB s = (if (cmod s) ^ 2 = 0 then None else Some (10 * log 10 ((cmod s) ^ 2)))"

text \<open>
  What \<^verbatim>\<open>eval\<close> sends to the logger: the error of a candidate that failed to simulate
  (exception text, component), the warning of a candidate that cannot reach the routing
  loss (component, routing loss, stop length), and the summary of results, one entry
  (component, L, T, R) for each index of the summary.
\<close>

datatype 'c log_entry =
    LogError string 'c
  | LogWarning 'c real real
  | LogInfo "('c \<times> real \<times> decibel \<times> decibel) list"

text \<open>
  Lines 318 to 337 of \<^verbatim>\<open>eval\<close>, the body of the loop after the sweep table is there: the
  three columns, the first index \<open>k\<close> whose transmission exceeds
  \<^verbatim>\<open>-loss * length[k] / cm\<close>, and the triple to append. The index \<open>k\<close> of \<^verbatim>\<open>enumerate\<close> is a
  label of the columns, so \<^verbatim>\<open>length[k]\<close> is the length at position \<open>k\<close>. StopIteration is
  the \<open>None\<close> of \<open>find\<close>; its handler logs the warning and then reads \<^verbatim>\<open>s21[-1]\<close> and
  \<^verbatim>\<open>s11[-1]\<close>.
\<close>

definition length_threshold_search ::
  "design_intent \<Rightarrow> 'c \<Rightarrow> sweep_table
     \<Rightarrow> 'c log_entry list \<times> (py_error + real \<times> decibel \<times> decibel)" where
  "length_threshold_search di cand tab =
     (let lengths = map length_col tab;
          s21 = map (\<lambda>row. to_dB (s21_col row)) tab;
          s11 = map (\<lambda>row. to_dB (s11_col row)) tab
      in case find (\<lambda>k. s21 ! k
                          > Some (((- narrow_waveguide_routing_loss_per_cm di) * lengths ! k) / cm))
                [0 ..< length s21] of
           Some ind \<Rightarrow>
             ([],
              bind_err (series_getitem lengths (int ind)) (\<lambda>len.
              bind_err (series_getitem s21 (int ind)) (\<lambda>t.
              bind_err (series_getitem s11 (int ind)) (\<lambda>r. Inr (len / um, t, r)))))
         | None \<Rightarrow>
             ([LogWarning cand (narrow_waveguide_routing_loss_per_cm di) (stop_length di)],
              bind_err (series_getitem s21 (- 1)) (\<lambda>t.
              bind_err (series_getitem s11 (- 1)) (\<lambda>r. Inr (stop_length di, t, r)))))"

text \<open>The sample \<open>row\<close> meets the routing loss: its transmission in dB exceeds
  \<^verbatim>\<open>-loss * length / cm\<close>.\<close>

definition meets_routing_loss :: "design_intent \<Rightarrow> sweep_row \<Rightarrow> bool" where
  "meets_routing_loss di row \<longleftrightarrow>
     to_dB (s21_col row)
       > Some (((- narrow_waveguide_routing_loss_per_cm di) * length_col row) / cm)"


text \<open>
  The collaborators of the recipe that are not part of the sources at hand, taken as
  parameters: the members of \<^verbatim>\<open>WidthTypes\<close>; the constructor of \<^verbatim>\<open>LumericalEmeSimulation\<close>
  (\<open>Inl\<close> the text of the exception it raised) and its \<^verbatim>\<open>get_length_sweep\<close>; the
  \<^verbatim>\<open>__hash__\<close> of the superclass; SHA-1 on bytes; \<^verbatim>\<open>model_dump_json\<close> of the two settings
  objects and of the design intent; and the reduction the builtin \<^verbatim>\<open>hash\<close> applies to the
  integer that \<^verbatim>\<open>__hash__\<close> returns.
\<close>

record ('x, 'c, 'ss, 'cs, 'sim) collaborators =
  width_types :: "string list"
  LumericalEmeSimulation ::
    "'c \<Rightarrow> (string \<rightharpoonup> string) \<Rightarrow> layer_stack \<Rightarrow> 'ss \<Rightarrow> 'cs \<Rightarrow> string \<Rightarrow> string + 'sim"
  get_length_sweep :: "'sim \<Rightarrow> real \<Rightarrow> real \<Rightarrow> int \<Rightarrow> sweep_table"
  super_hash :: "('x, 'c, 'ss, 'cs) recipe \<Rightarrow> int"
  sha1 :: "nat list \<Rightarrow> nat list"
  simulation_json :: "'ss \<Rightarrow> string"
  convergence_json :: "'cs \<Rightarrow> string"
  intent_json :: "design_intent \<Rightarrow> string"
  builtin_hash :: "int \<Rightarrow> int"

text \<open>The local lists of \<^verbatim>\<open>eval\<close> that the loop appends to, and what it has logged.\<close>

record ('c, 'sim) sweep_state =
  optimal_lengths :: "real list"
  transmission_coefficients :: "decibel list"
  reflection_coefficients :: "decibel list"
  simulated_components :: "'c list"
  sims :: "'sim list"
  length_sweeps :: "sweep_table list"
  logged :: "'c log_entry list"

definition no_results :: "('c, 'sim) sweep_state" where
  "no_results = \<lparr>optimal_lengths = [], transmission_coefficients = [],
     reflection_coefficients = [], simulated_components = [], sims = [],
     length_sweeps = [], logged = []\<rparr>"

text \<open>
  Lines 287 to 337: the loop over the candidate components. A constructor that raises is
  logged and the loop goes on to the next component; an exception of the search leaves the
  loop, with what was logged so far.
\<close>

fun sweep_loop ::
  "('x, 'c, 'ss, 'cs, 'sim) collaborators \<Rightarrow> ('x, 'c, 'ss, 'cs) recipe \<Rightarrow> 'c list
     \<Rightarrow> ('c, 'sim) sweep_state \<Rightarrow> (py_error \<times> 'c log_entry list) + ('c, 'sim) sweep_state" where
  "sweep_loop env self [] st = Inr st"
| "sweep_loop env self (cand # cands) st =
     (case LumericalEmeSimulation env cand (material_map self) (layer_stack self)
             (simulation_setup self) (convergence_setup self) (dirpath self) of
        Inl err \<Rightarrow> sweep_loop env self cands (st\<lparr>logged := logged st @ [LogError err cand]\<rparr>)
      | Inr sim \<Rightarrow>
          (let di = design_intent self;
               tab = get_length_sweep env sim (start_length di) (stop_length di) (num_pts di)
           in case length_threshold_search di cand tab of
                (msgs, Inl e) \<Rightarrow> Inl (e, logged st @ msgs)
              | (msgs, Inr (len, t, r)) \<Rightarrow>
                  sweep_loop env self cands
                    (st\<lparr>sims := sims st @ [sim],
                        simulated_components := simulated_components st @ [cand],
                        length_sweeps := length_sweeps st @ [tab],
                        optimal_lengths := optimal_lengths st @ [len],
                        transmission_coefficients := transmission_coefficients st @ [t],
                        reflection_coefficients := reflection_coefficients st @ [r],
                        logged := logged st @ msgs\<rparr>)))"

section \<open>Fingerprint\<close>

text \<open>\<^verbatim>\<open>int.bit_length()\<close>: the number of bits of the absolute value.\<close>

fun bit_length_nat :: "nat \<Rightarrow> nat" where
  "bit_length_nat n = (if n = 0 then 0 else Suc (bit_length_nat (n div 2)))"

declare bit_length_nat.simps [simp del]

definition bit_length :: "int \<Rightarrow> nat" where
  "bit_length i = bit_length_nat (nat \<bar>i\<bar>)"

text \<open>\<^verbatim>\<open>i.to_bytes(n, byteorder="big")\<close>, unsigned: OverflowError for a negative integer and
  for one that does not fit into \<open>n\<close> bytes.\<close>

definition to_bytes :: "int \<Rightarrow> nat \<Rightarrow> py_error + nat list" where
  "to_bytes i n =
     (if i < 0 \<or> 256 ^ n \<le> nat i then Inl OverflowError
      else Inr (map (\<lambda>k. (nat i div 256 ^ (n - 1 - k)) mod 256) [0 ..< n]))"

text \<open>\<^verbatim>\<open>int.from_bytes(bs, "big")\<close>.\<close>

definition from_bytes :: "nat list \<Rightarrow> int" where
  "from_bytes bs = int (foldl (\<lambda>acc b. acc * 256 + b) 0 bs)"

text \<open>\<^verbatim>\<open>s.encode("utf-8")\<close>; a string is held as its UTF-8 bytes.\<close>

definition encode_utf8 :: "string \<Rightarrow> nat list" where
  "encode_utf8 s = map of_char s"

text \<open>
  \<^verbatim>\<open>RoutingTaperDesignRecipe.__hash__\<close>. The length handed to \<^verbatim>\<open>to_bytes\<close> is written as in
  the source, \<^verbatim>\<open>int_hash.bit_length() + 7 // 8\<close>. The successive \<^verbatim>\<open>h.update\<close> calls hash the
  concatenation of their arguments.
\<close>

definition recipe_hash ::
  "('x, 'c, 'ss, 'cs, 'sim) collaborators \<Rightarrow> ('x, 'c, 'ss, 'cs) recipe \<Rightarrow> py_error + int" where
  "recipe_hash env self =
     (let int_hash = super_hash env self
      in bind_err (to_bytes int_hash (bit_length int_hash + 7 div 8)) (\<lambda>bs.
           Inr (from_bytes (sha1 env
             (bs @ encode_utf8 (simulation_json env (simulation_setup self))
                 @ encode_utf8 (convergence_json env (convergence_setup self))
                 @ encode_utf8 (intent_json env (design_intent self)))))))"

section \<open>The recipe's eval\<close>

text \<open>
  The body of \<^verbatim>\<open>eval\<close>; the decorator around it is not part of the sources at hand. The
  result is the recipe after the call, the messages logged, and the exception that left
  the body, if any. The summary logged at line 343 has one entry for each index below
  \<^verbatim>\<open>len(simulated_components)\<close>, read from \<^verbatim>\<open>components\<close> and the three result lists.
\<close>

record ('x, 'c, 'ss, 'cs) eval_result =
  recipe_after :: "('x, 'c, 'ss, 'cs) recipe"
  messages :: "'c log_entry list"
  raised :: "py_error option"

definition eval ::
  "('x, 'c, 'ss, 'cs, 'sim) collaborators \<Rightarrow> ('x, 'c, 'ss, 'cs) recipe
     \<Rightarrow> ('x, 'c, 'ss, 'cs) eval_result" where
  "eval env self0 =
     (case recipe_hash env self0 of
        Inl e \<Rightarrow> \<lparr>recipe_after = self0, messages = [], raised = Some e\<rparr>
      | Inr h \<Rightarrow>
          (let self = self0\<lparr>last_hash := builtin_hash env h\<rparr>;
               components = map (\<lambda>wtype. cell self (cross_section1 self) (cross_section2 self) 5 wtype)
                              (width_types env)
           in case sweep_loop env self components no_results of
                Inl (e, msgs) \<Rightarrow> \<lparr>recipe_after = self, messages = msgs, raised = Some e\<rparr>
              | Inr st \<Rightarrow>
                  (let results = map (\<lambda>i. (components ! i, optimal_lengths st ! i,
                                             transmission_coefficients st ! i,
                                             reflection_coefficients st ! i))
                                   [0 ..< length (simulated_components st)];
                       msgs = logged st @ [LogInfo results]
                   in case get_best_component (width_types env) self (optimal_lengths st)
                             (reflection_coefficients st) (length_sweeps st) of
                        Inl e \<Rightarrow> \<lparr>recipe_after = self, messages = msgs, raised = Some e\<rparr>
                      | Inr self' \<Rightarrow> \<lparr>recipe_after = self', messages = msgs, raised = None\<rparr>)))"



section \<open>Layer Builder process file\<close>






















section \<open>Worked examples\<close>

text \<open>The defaults of \<^verbatim>\<open>RoutingTaperDesignIntent\<close>.\<close>

definition default_intent :: design_intent where
  "default_intent = \<lparr>narrow_waveguide_routing_loss_per_cm = 3, max_reflection = - 70,
     start_length = 1, stop_length = 200, num_pts = 200\<rparr>"

text \<open>A recipe whose components are the pair of the length and the width type they were
  built with.\<close>

definition example_recipe :: "(unit, real \<times> string, unit, unit) recipe" where
  "example_recipe = \<lparr>cell = (\<lambda>xs1 xs2 len wtype. (len, wtype)), material_map = Map.empty,
     layer_stack = [], cross_section1 = (), cross_section2 = (), dirpath = ''run'',
     design_intent = default_intent, simulation_setup = (), convergence_setup = (),
     component = None, length_sweep = None, last_hash = - 1\<rparr>"

text \<open>
  Sweep tables. The sine taper transmits a tenth of the amplitude at 1 um and everything
  at 50 um. The linear taper does so at 1 um and at 20 um, where a tenth of the amplitude
  is reflected. The parabolic taper transmits everything from 1 um on. The lossy taper
  transmits nothing at 1 um and a tenth of the amplitude at 200 um. The short taper is as
  good as the linear one at 20 um.
\<close>

definition sine_table :: sweep_table where
  "sine_table = [\<lparr>length_col = um, s21_col = 1 / 10, s11_col = 1\<rparr>,
                 \<lparr>length_col = 50 * um, s21_col = 1, s11_col = 1\<rparr>]"

definition linear_table :: sweep_table where
  "linear_table = [\<lparr>length_col = um, s21_col = 1 / 10, s11_col = 1\<rparr>,
                   \<lparr>length_col = 20 * um, s21_col = \<i>, s11_col = 1 / 10\<rparr>,
                   \<lparr>length_col = 100 * um, s21_col = 1, s11_col = 1\<rparr>]"

definition parabolic_table :: sweep_table where
  "parabolic_table = [\<lparr>length_col = um, s21_col = 1, s11_col = 1\<rparr>,
                      \<lparr>length_col = 2 * um, s21_col = 1, s11_col = 1\<rparr>]"

definition lossy_table :: sweep_table where
  "lossy_table = [\<lparr>length_col = um, s21_col = 0, s11_col = 1\<rparr>,
                  \<lparr>length_col = 200 * um, s21_col = 1 / 10, s11_col = 1\<rparr>]"

definition short_table :: sweep_table where
  "short_table = [\<lparr>length_col = um, s21_col = 1 / 10, s11_col = 1\<rparr>,
                  \<lparr>length_col = 20 * um, s21_col = 1, s11_col = 1 / 10\<rparr>]"

text \<open>
  Collaborators for the examples. The width types are those of gdsfactory. A simulation
  is identified by the width type of its component; every constructor succeeds and the
  three tapers have the sine, linear and parabolic tables.
\<close>

definition example_lumerical :: "(unit, real \<times> string, unit, unit, string) collaborators" where
  "example_lumerical = \<lparr>width_types = [''sine'', ''linear'', ''parabolic''],
     LumericalEmeSimulation = (\<lambda>c mm ls ss cs dir. Inr (snd c)),
     get_length_sweep = (\<lambda>sim start stop n.
       if sim = ''sine'' then sine_table
       else if sim = ''linear'' then linear_table else parabolic_table),
     super_hash = (\<lambda>r. 1), sha1 = (\<lambda>bs. bs), simulation_json = (\<lambda>ss. ''{}''),
     convergence_json = (\<lambda>cs. ''{}''), intent_json = (\<lambda>di. ''{}''),
     builtin_hash = (\<lambda>h. h)\<rparr>"

text \<open>The same collaborators with a simulator whose constructor raises for every component.\<close>

definition failing_lumerical :: "(unit, real \<times> string, unit, unit, string) collaborators" where
  "failing_lumerical =
     example_lumerical\<lparr>LumericalEmeSimulation := (\<lambda>c mm ls ss cs dir. Inl ''no licence'')\<rparr>"

text \<open>The same collaborators with a simulator whose constructor raises for the sine taper.\<close>

definition sine_fails_lumerical ::
  "(unit, real \<times> string, unit, unit, string) collaborators" where
  "sine_fails_lumerical =
     example_lumerical\<lparr>LumericalEmeSimulation := (\<lambda>c mm ls ss cs dir.
       if snd c = ''sine'' then Inl ''mesh diverged'' else Inr (snd c))\<rparr>"

text \<open>The same, and the parabolic taper has the short table, so it ties with the linear
  taper.\<close>

definition tied_lumerical :: "(unit, real \<times> string, unit, unit, string) collaborators" where
  "tied_lumerical =
     sine_fails_lumerical\<lparr>get_length_sweep := (\<lambda>sim start stop n.
       if sim = ''sine'' then sine_table
       else if sim = ''linear'' then linear_table else short_table)\<rparr>"

text \<open>The collaborators of the first example, but the parabolic taper has the lossy table.\<close>

definition lossy_lumerical :: "(unit, real \<times> string, unit, unit, string) collaborators" where
  "lossy_lumerical =
     example_lumerical\<lparr>get_length_sweep := (\<lambda>sim start stop n.
       if sim = ''sine'' then sine_table
       else if sim = ''linear'' then linear_table else lossy_table)\<rparr>"





section \<open>Facts about the Python helpers\<close>

lemma py_min_foldl:
  "foldl (\<lambda>best item. if item < best then item else best) x xs = Min (set (x # xs))"
proof (induction xs arbitrary: x)
  case Nil
  show ?case by simp
next
  case (Cons y ys)
  have "Min (set (x # y # ys)) = Min (set ((min x y) # ys))"
    by (cases ys) (simp_all add: min.assoc)
  moreover have "(if y < x then y else x) = min x y"
    by (auto simp: min_def)
  ultimately show ?case
    using Cons.IH [of "min x y"] by simp
qed

lemma py_min_Min: "xs \<noteq> [] \<Longrightarrow> py_min xs = Inr (Min (set xs))"
  by (cases xs) (simp_all only: py_min.simps py_min_foldl, simp)

lemma py_index_first:
  "v \<in> set xs \<Longrightarrow> \<exists>i. py_index xs v = Inr i \<and> i < length xs \<and> xs ! i = v \<and> (\<forall>j < i. xs ! j \<noteq> v)"
proof (induction xs)
  case Nil
  then show ?case by simp
next
  case (Cons x xs)
  show ?case
  proof (cases "x = v")
    case True
    then show ?thesis by simp
  next
    case False
    with Cons.prems have "v \<in> set xs" by simp
    from Cons.IH [OF this] obtain i where
      i: "py_index xs v = Inr i" "i < length xs" "xs ! i = v" "\<forall>j < i. xs ! j \<noteq> v"
      by blast
    have "\<forall>j < Suc i. (x # xs) ! j \<noteq> v"
    proof (intro allI impI)
      fix j assume "j < Suc i"
      then show "(x # xs) ! j \<noteq> v"
        using False i(4) by (cases j) simp_all
    qed
    with False i show ?thesis by simp
  qed
qed

lemma first_min_index:
  assumes "xs \<noteq> []"
  shows "\<exists>i. bind_err (py_min xs) (py_index xs) = Inr i \<and> is_first_min xs i"
proof -
  let ?m = "Min (set xs)"
  have "?m \<in> set xs" using assms by (simp add: Min_in)
  from py_index_first [OF this] obtain i where
    i: "py_index xs ?m = Inr i" "i < length xs" "xs ! i = ?m" "\<forall>j < i. xs ! j \<noteq> ?m"
    by blast
  have le: "\<forall>j < length xs. xs ! i \<le> xs ! j"
    using i(3) by simp
  have "\<forall>j < i. xs ! i < xs ! j"
  proof (intro allI impI)
    fix j assume j: "j < i"
    then have "xs ! j \<noteq> xs ! i" using i(3,4) by simp
    moreover have "xs ! i \<le> xs ! j" using le j i(2) by simp
    ultimately show "xs ! i < xs ! j" by simp
  qed
  with i le show ?thesis
    by (simp add: bind_err_def py_min_Min [OF assms] is_first_min_def)
qed

lemma is_first_min_unique: "is_first_min xs i \<Longrightarrow> is_first_min xs j \<Longrightarrow> i = j"
  unfolding is_first_min_def
  by (metis leD linorder_neqE_nat)

section \<open>Facts about the selection\<close>

lemma get_best_component_pick:
  assumes i1: "is_first_min ols ind1" and i2: "is_first_min rcs ind2"
    and l1: "length rcs = length ols" and l2: "length lss = length ols"
    and l3: "length ols \<le> length wtypes"
  shows "get_best_component wtypes self ols rcs lss =
           (let pick = (if ind1 = ind2 \<or> rcs ! ind1 < Some (max_reflection (design_intent self))
                        then ind1 else ind2)
            in Inr (self\<lparr>component := Some (cell self (cross_section1 self) (cross_section2 self)
                                              (ols ! pick) (wtypes ! pick)),
                        length_sweep := Some (lss ! pick)\<rparr>))"
proof -
  have ne1: "ols \<noteq> []" and ne2: "rcs \<noteq> []"
    using i1 i2 by (auto simp: is_first_min_def)
  from first_min_index [OF ne1] is_first_min_unique [OF _ i1]
  have a: "bind_err (py_min ols) (py_index ols) = Inr ind1" by blast
  from first_min_index [OF ne2] is_first_min_unique [OF _ i2]
  have b: "bind_err (py_min rcs) (py_index rcs) = Inr ind2" by blast
  from a have a': "py_index ols (Min (set ols)) = Inr ind1"
    by (simp add: bind_err_def py_min_Min [OF ne1])
  from b have b': "py_index rcs (Min (set rcs)) = Inr ind2"
    by (simp add: bind_err_def py_min_Min [OF ne2])
  have r1: "ind1 < length ols" "ind2 < length ols"
    using i1 i2 l1 by (auto simp: is_first_min_def)
  show ?thesis
    using r1 l1 l2 l3
    by (simp add: get_best_component_def py_min_Min [OF ne1] py_min_Min [OF ne2] a' b'
        bind_err_def py_nth_def Let_def)
qed

lemma get_best_component_frame:
  assumes "get_best_component wtypes self ols rcs lss = Inr self'"
  shows "\<exists>c t. self' = self\<lparr>component := c, length_sweep := t\<rparr>"
  using assms unfolding get_best_component_def bind_err_def
  by (auto split: sum.splits if_splits)


lemma get_best_component_empty: "get_best_component wtypes self [] rcs lss = Inl ValueError"
  by (simp add: get_best_component_def bind_err_def)

section \<open>Facts about decibels\<close>

lemma to_dB_0: "to_dB 0 = None"
  by (simp add: to_dB_def)

lemma to_dB_1: "to_dB 1 = Some 0"
  by (simp add: to_dB_def)

lemma to_dB_ii: "to_dB \<i> = Some 0"
  by (simp add: to_dB_def)

lemma cmod_tenth: "cmod (1 / 10) = 1 / 10"
  by (simp add: norm_divide)

lemma log_hundredth: "log 10 (1 / 100) = - 2"
proof -
  have "(1 / 100 :: real) = 10 powr (- 2)"
    by (simp add: powr_minus_divide)
  then show ?thesis
    by (simp only: log_powr_cancel)
qed

lemma to_dB_tenth: "to_dB (1 / 10) = Some (- 20)"
proof -
  have p: "(cmod (1 / 10)) ^ 2 = 1 / 100"
    unfolding cmod_tenth by (simp add: power2_eq_square)
  show ?thesis
    unfolding to_dB_def p log_hundredth by simp
qed

section \<open>Facts about the length-threshold search\<close>

lemma find_upt_Some:
  "find P [0 ..< n] = Some k \<longleftrightarrow> k < n \<and> P k \<and> (\<forall>j < k. \<not> P j)"
  by (auto simp: find_Some_iff)

lemma find_upt_None: "find P [0 ..< n] = None \<longleftrightarrow> (\<forall>k < n. \<not> P k)"
  by (auto simp: find_None_iff)

lemma search_crossing:
  assumes "k < length tab" "meets_routing_loss di (tab ! k)"
    "\<forall>j < k. \<not> meets_routing_loss di (tab ! j)"
  shows "length_threshold_search di cand tab =
           ([], Inr (length_col (tab ! k) / um, to_dB (s21_col (tab ! k)),
                     to_dB (s11_col (tab ! k))))"
proof -
  let ?P = "\<lambda>k. map (\<lambda>row. to_dB (s21_col row)) tab ! k
             > Some (((- narrow_waveguide_routing_loss_per_cm di) * map length_col tab ! k) / cm)"
  have "find ?P [0 ..< length tab] = Some k"
    unfolding find_upt_Some using assms by (simp add: meets_routing_loss_def)
  then show ?thesis
    using assms(1)
    by (simp add: length_threshold_search_def Let_def series_getitem_def bind_err_def)
qed

lemma search_no_crossing:
  assumes "\<forall>k < length tab. \<not> meets_routing_loss di (tab ! k)"
  shows "length_threshold_search di cand tab =
           ([LogWarning cand (narrow_waveguide_routing_loss_per_cm di) (stop_length di)],
            Inl KeyError)"
proof -
  let ?P = "\<lambda>k. map (\<lambda>row. to_dB (s21_col row)) tab ! k
             > Some (((- narrow_waveguide_routing_loss_per_cm di) * map length_col tab ! k) / cm)"
  have "find ?P [0 ..< length tab] = None"
    unfolding find_upt_None using assms by (simp add: meets_routing_loss_def)
  then show ?thesis
    by (simp add: length_threshold_search_def Let_def series_getitem_def bind_err_def)
qed

lemma first_crossing_exists:
  assumes "k < length tab" "meets_routing_loss di (tab ! k)"
  shows "\<exists>k0 \<le> k. meets_routing_loss di (tab ! k0) \<and> (\<forall>j < k0. \<not> meets_routing_loss di (tab ! j))"
proof -
  let ?k0 = "LEAST i. meets_routing_loss di (tab ! i)"
  have "meets_routing_loss di (tab ! ?k0)" using assms(2) by (rule LeastI)
  moreover have "?k0 \<le> k" using assms(2) by (rule Least_le)
  moreover have "\<forall>j < ?k0. \<not> meets_routing_loss di (tab ! j)"
    using not_less_Least by blast
  ultimately show ?thesis by blast
qed


lemma sweep_loop_step:
  assumes "LumericalEmeSimulation env cand (material_map self) (layer_stack self)
             (simulation_setup self) (convergence_setup self) (dirpath self) = Inr sim"
    and "get_length_sweep env sim (start_length (design_intent self))
           (stop_length (design_intent self)) (num_pts (design_intent self)) = tab"
    and "length_threshold_search (design_intent self) cand tab = (msgs, Inr (len, t, r))"
  shows "sweep_loop env self (cand # cands) st =
           sweep_loop env self cands
             (st\<lparr>sims := sims st @ [sim],
                 simulated_components := simulated_components st @ [cand],
                 length_sweeps := length_sweeps st @ [tab],
                 optimal_lengths := optimal_lengths st @ [len],
                 transmission_coefficients := transmission_coefficients st @ [t],
                 reflection_coefficients := reflection_coefficients st @ [r],
                 logged := logged st @ msgs\<rparr>)"
  using assms by (simp add: Let_def)

lemma sweep_loop_raises:
  assumes "LumericalEmeSimulation env cand (material_map self) (layer_stack self)
             (simulation_setup self) (convergence_setup self) (dirpath self) = Inr sim"
    and "get_length_sweep env sim (start_length (design_intent self))
           (stop_length (design_intent self)) (num_pts (design_intent self)) = tab"
    and "length_threshold_search (design_intent self) cand tab = (msgs, Inl e)"
  shows "sweep_loop env self (cand # cands) st = Inl (e, logged st @ msgs)"
  using assms by (simp add: Let_def)

lemma sweep_loop_failed:
  assumes "LumericalEmeSimulation env cand (material_map self) (layer_stack self)
             (simulation_setup self) (convergence_setup self) (dirpath self) = Inl err"
  shows "sweep_loop env self (cand # cands) st =
           sweep_loop env self cands (st\<lparr>logged := logged st @ [LogError err cand]\<rparr>)"
  using assms by simp

section \<open>The example tables\<close>

lemma search_sine_table:
  "length_threshold_search default_intent cand sine_table = ([], Inr (50, Some 0, Some 0))"
proof -
  have a: "meets_routing_loss default_intent (sine_table ! 1)"
    by (simp add: sine_table_def meets_routing_loss_def default_intent_def to_dB_1 um_def cm_def)
  have b: "\<forall>j < 1. \<not> meets_routing_loss default_intent (sine_table ! j)"
    by (simp add: sine_table_def meets_routing_loss_def default_intent_def to_dB_tenth
        um_def cm_def)
  have c: "1 < length sine_table" by (simp add: sine_table_def)
  from search_crossing [OF c a b, of cand] show ?thesis
    by (simp add: sine_table_def to_dB_1 um_def)
qed

lemma linear_table_rows:
  "\<not> meets_routing_loss default_intent (linear_table ! 0)"
  "meets_routing_loss default_intent (linear_table ! 1)"
  "meets_routing_loss default_intent (linear_table ! 2)"
  by (simp_all add: linear_table_def meets_routing_loss_def default_intent_def to_dB_1
      to_dB_ii to_dB_tenth um_def cm_def)

lemma search_linear_table:
  "length_threshold_search default_intent cand linear_table
     = ([], Inr (20, Some 0, Some (- 20)))"
proof -
  have b: "\<forall>j < 1. \<not> meets_routing_loss default_intent (linear_table ! j)"
    using linear_table_rows(1) by simp
  have c: "1 < length linear_table" by (simp add: linear_table_def)
  from search_crossing [OF c linear_table_rows(2) b, of cand] show ?thesis
    by (simp add: linear_table_def to_dB_ii to_dB_tenth um_def)
qed

lemma search_parabolic_table:
  "length_threshold_search default_intent cand parabolic_table = ([], Inr (1, Some 0, Some 0))"
proof -
  have a: "meets_routing_loss default_intent (parabolic_table ! 0)"
    by (simp add: parabolic_table_def meets_routing_loss_def default_intent_def to_dB_1
        um_def cm_def)
  have c: "0 < length parabolic_table" by (simp add: parabolic_table_def)
  from search_crossing [OF c a, of cand] show ?thesis
    by (simp add: parabolic_table_def to_dB_1 um_def)
qed

lemma search_short_table:
  "length_threshold_search default_intent cand short_table
     = ([], Inr (20, Some 0, Some (- 20)))"
proof -
  have a: "meets_routing_loss default_intent (short_table ! 1)"
    by (simp add: short_table_def meets_routing_loss_def default_intent_def to_dB_1 um_def cm_def)
  have b: "\<forall>j < 1. \<not> meets_routing_loss default_intent (short_table ! j)"
    by (simp add: short_table_def meets_routing_loss_def default_intent_def to_dB_tenth
        um_def cm_def)
  have c: "1 < length short_table" by (simp add: short_table_def)
  from search_crossing [OF c a b, of cand] show ?thesis
    by (simp add: short_table_def to_dB_1 to_dB_tenth um_def)
qed

lemma lossy_table_rows:
  "\<not> meets_routing_loss default_intent (lossy_table ! 0)"
  "\<not> meets_routing_loss default_intent (lossy_table ! 1)"
  by (simp_all add: lossy_table_def meets_routing_loss_def default_intent_def to_dB_0
      to_dB_tenth um_def cm_def)

lemma search_lossy_table:
  "length_threshold_search default_intent cand lossy_table
     = ([LogWarning cand 3 200], Inl KeyError)"
proof -
  have "\<forall>k < length lossy_table. \<not> meets_routing_loss default_intent (lossy_table ! k)"
    using lossy_table_rows by (simp add: lossy_table_def All_less_Suc)
  from search_no_crossing [OF this, of cand] show ?thesis
    by (simp add: default_intent_def)
qed

section \<open>Length-threshold search: the first crossing\<close>

text \<open>
  C1: for a candidate that simulates, whenever some sample of its sweep table meets the
  routing loss, that is, its transmission in dB exceeds \<^verbatim>\<open>-loss * length / cm\<close>, the search
  picks the smallest index \<open>k0\<close> that does, and the triple it hands on is the length of
  sample \<open>k0\<close> in micrometres (the unit of the sweep range) with the transmission and the
  reflection in dB of the same sample; no warning is logged, and the loop appends exactly
  this triple, with the table, to its lists before it goes on. The length scale is the
  module constant \<open>cm\<close>. The lengths need not even be increasing for this to hold.
\<close>

theorem first_crossing_is_recorded:
  assumes "LumericalEmeSimulation env cand (material_map self) (layer_stack self)
             (simulation_setup self) (convergence_setup self) (dirpath self) = Inr sim"
    and "get_length_sweep env sim (start_length (design_intent self))
           (stop_length (design_intent self)) (num_pts (design_intent self)) = tab"
    and "k < length tab"
    and "meets_routing_loss (design_intent self) (tab ! k)"
  shows "\<exists>k0 \<le> k. meets_routing_loss (design_intent self) (tab ! k0)
           \<and> (\<forall>j < k0. \<not> meets_routing_loss (design_intent self) (tab ! j))
           \<and> length_threshold_search (design_intent self) cand tab =
               ([], Inr (length_col (tab ! k0) / um, to_dB (s21_col (tab ! k0)),
                         to_dB (s11_col (tab ! k0))))
           \<and> sweep_loop env self (cand # cands) st =
               sweep_loop env self cands
                 (st\<lparr>sims := sims st @ [sim],
                     simulated_components := simulated_components st @ [cand],
                     length_sweeps := length_sweeps st @ [tab],
                     optimal_lengths := optimal_lengths st @ [length_col (tab ! k0) / um],
                     transmission_coefficients :=
                       transmission_coefficients st @ [to_dB (s21_col (tab ! k0))],
                     reflection_coefficients :=
                       reflection_coefficients st @ [to_dB (s11_col (tab ! k0))]\<rparr>)
           \<and> sweep_loop env self [cand] st =
               Inr (st\<lparr>sims := sims st @ [sim],
                       simulated_components := simulated_components st @ [cand],
                       length_sweeps := length_sweeps st @ [tab],
                       optimal_lengths := optimal_lengths st @ [length_col (tab ! k0) / um],
                       transmission_coefficients :=
                         transmission_coefficients st @ [to_dB (s21_col (tab ! k0))],
                       reflection_coefficients :=
                         reflection_coefficients st @ [to_dB (s11_col (tab ! k0))]\<rparr>)"
proof -
  let ?di = "design_intent self"
  from first_crossing_exists [OF assms(3,4)] obtain k0 where
    k0: "k0 \<le> k" "meets_routing_loss ?di (tab ! k0)"
      "\<forall>j < k0. \<not> meets_routing_loss ?di (tab ! j)"
    by blast
  then have lt: "k0 < length tab" using assms(3) by simp
  note s = search_crossing [OF lt k0(2,3), of cand]
  have step: "sweep_loop env self (cand # cs) st =
               sweep_loop env self cs
                 (st\<lparr>sims := sims st @ [sim],
                     simulated_components := simulated_components st @ [cand],
                     length_sweeps := length_sweeps st @ [tab],
                     optimal_lengths := optimal_lengths st @ [length_col (tab ! k0) / um],
                     transmission_coefficients :=
                       transmission_coefficients st @ [to_dB (s21_col (tab ! k0))],
                     reflection_coefficients :=
                       reflection_coefficients st @ [to_dB (s11_col (tab ! k0))]\<rparr>)" for cs
    unfolding sweep_loop_step [OF assms(1,2) s] by simp
  have one: "sweep_loop env self [cand] st =
               Inr (st\<lparr>sims := sims st @ [sim],
                       simulated_components := simulated_components st @ [cand],
                       length_sweeps := length_sweeps st @ [tab],
                       optimal_lengths := optimal_lengths st @ [length_col (tab ! k0) / um],
                       transmission_coefficients :=
                         transmission_coefficients st @ [to_dB (s21_col (tab ! k0))],
                       reflection_coefficients :=
                         reflection_coefficients st @ [to_dB (s11_col (tab ! k0))]\<rparr>)"
    unfolding step [of "[]"] by simp
  from k0 s step [of cands] one show ?thesis
    by (intro exI [of _ k0]) simp
qed

theorem first_crossing_is_recorded_witness:
  "LumericalEmeSimulation example_lumerical (5 :: real, ''linear'') (material_map example_recipe)
       (layer_stack example_recipe) (simulation_setup example_recipe)
       (convergence_setup example_recipe) (dirpath example_recipe) = Inr ''linear''
   \<and> get_length_sweep example_lumerical ''linear'' (start_length (design_intent example_recipe))
       (stop_length (design_intent example_recipe)) (num_pts (design_intent example_recipe))
       = linear_table
   \<and> (2 :: nat) < length linear_table
   \<and> meets_routing_loss (design_intent example_recipe) (linear_table ! 2)
   \<and> \<not> meets_routing_loss (design_intent example_recipe) (linear_table ! 0)
   \<and> meets_routing_loss (design_intent example_recipe) (linear_table ! 1)
   \<and> length_threshold_search (design_intent example_recipe) (5 :: real, ''linear'') linear_table
       = ([], Inr (20, Some 0, Some (- 20)))
   \<and> sweep_loop example_lumerical example_recipe [(5, ''linear'')] no_results
       = Inr \<lparr>optimal_lengths = [20], transmission_coefficients = [Some 0],
              reflection_coefficients = [Some (- 20)],
              simulated_components = [(5, ''linear'')], sims = [''linear''],
              length_sweeps = [linear_table], logged = []\<rparr>"
proof -
  let ?cand = "(5 :: real, ''linear'')"
  have di: "design_intent example_recipe = default_intent"
    by (simp add: example_recipe_def)
  have h1: "LumericalEmeSimulation example_lumerical ?cand (material_map example_recipe)
       (layer_stack example_recipe) (simulation_setup example_recipe)
       (convergence_setup example_recipe) (dirpath example_recipe) = Inr ''linear''"
    by (simp add: example_lumerical_def)
  have h2: "get_length_sweep example_lumerical ''linear''
       (start_length (design_intent example_recipe)) (stop_length (design_intent example_recipe))
       (num_pts (design_intent example_recipe)) = linear_table"
    by (simp add: example_lumerical_def)
  have h3: "(2 :: nat) < length linear_table" by (simp add: linear_table_def)
  have h4: "meets_routing_loss (design_intent example_recipe) (linear_table ! 2)"
    unfolding di by (rule linear_table_rows(3))
  have r0: "\<not> meets_routing_loss (design_intent example_recipe) (linear_table ! 0)"
    unfolding di by (rule linear_table_rows(1))
  have r1: "meets_routing_loss (design_intent example_recipe) (linear_table ! 1)"
    unfolding di by (rule linear_table_rows(2))
  have b: "sweep_loop example_lumerical example_recipe [?cand] no_results
       = Inr \<lparr>optimal_lengths = [20], transmission_coefficients = [Some 0],
              reflection_coefficients = [Some (- 20)],
              simulated_components = [?cand], sims = [''linear''],
              length_sweeps = [linear_table], logged = []\<rparr>"
    using first_crossing_is_recorded [OF h1 h2 h3 h4, of "[]" no_results]
  proof (elim exE conjE)
    fix k0
    assume s: "length_threshold_search (design_intent example_recipe) ?cand linear_table =
          ([], Inr (length_col (linear_table ! k0) / um, to_dB (s21_col (linear_table ! k0)),
                    to_dB (s11_col (linear_table ! k0))))"
    assume l: "sweep_loop example_lumerical example_recipe [?cand] no_results =
          Inr (no_results\<lparr>sims := sims no_results @ [''linear''],
                 simulated_components := simulated_components no_results @ [?cand],
                 length_sweeps := length_sweeps no_results @ [linear_table],
                 optimal_lengths := optimal_lengths no_results
                   @ [length_col (linear_table ! k0) / um],
                 transmission_coefficients := transmission_coefficients no_results
                   @ [to_dB (s21_col (linear_table ! k0))],
                 reflection_coefficients := reflection_coefficients no_results
                   @ [to_dB (s11_col (linear_table ! k0))]\<rparr>)"
    from s have v: "length_col (linear_table ! k0) / um = 20"
      "to_dB (s21_col (linear_table ! k0)) = Some 0"
      "to_dB (s11_col (linear_table ! k0)) = Some (- 20)"
      unfolding di search_linear_table by simp_all
    show ?thesis
      unfolding l v by (simp add: no_results_def)
  qed
  have a: "length_threshold_search (design_intent example_recipe) ?cand linear_table
       = ([], Inr (20, Some 0, Some (- 20)))"
    unfolding di by (rule search_linear_table)
  show ?thesis
    by (intro conjI h1 h2 h3 h4 r0 r1 a b)
qed

section \<open>Selection rule\<close>

text \<open>
  C2: for non-empty, equally long lists of optimal lengths, reflections and sweep tables
  (one entry per candidate, at most as many as there are width types), with \<open>ind1\<close> the
  first index of the smallest optimal length and \<open>ind2\<close> the first index of the smallest
  reflection: candidate \<open>ind1\<close> is picked when \<open>ind1 = ind2\<close> or when its reflection is
  strictly below \<open>max_reflection\<close>, candidate \<open>ind2\<close> otherwise, and the recipe's component
  is built with the picked optimal length while its length sweep becomes the picked table.
\<close>

theorem selection_rule:
  assumes "is_first_min ols ind1" and "is_first_min rcs ind2"
    and "length rcs = length ols" and "length lss = length ols"
    and "length ols \<le> length wtypes"
  shows "get_best_component wtypes self ols rcs lss =
           (if ind1 = ind2 \<or> rcs ! ind1 < Some (max_reflection (design_intent self))
            then Inr (self\<lparr>component := Some (cell self (cross_section1 self) (cross_section2 self)
                                                (ols ! ind1) (wtypes ! ind1)),
                          length_sweep := Some (lss ! ind1)\<rparr>)
            else Inr (self\<lparr>component := Some (cell self (cross_section1 self) (cross_section2 self)
                                                (ols ! ind2) (wtypes ! ind2)),
                          length_sweep := Some (lss ! ind2)\<rparr>))"
  using get_best_component_pick [OF assms, of self] by (simp add: Let_def)

theorem selection_rule_witness:
  "is_first_min [10, 5 :: real] 1 \<and> is_first_min [Some (- 80), Some (- 50 :: real)] 0
   \<and> length [Some (- 80), Some (- 50 :: real)] = length [10, 5 :: real]
   \<and> length [sine_table, linear_table] = length [10, 5 :: real]
   \<and> length [10, 5 :: real] \<le> length [''sine'', ''linear'']
   \<and> get_best_component [''sine'', ''linear''] example_recipe [10, 5]
         [Some (- 80), Some (- 50)] [sine_table, linear_table]
       = Inr (example_recipe\<lparr>component := Some (10, ''sine''),
                length_sweep := Some sine_table\<rparr>)"
proof -
  have h1: "is_first_min [10, 5 :: real] 1"
    by (simp add: is_first_min_def All_less_Suc)
  have h2: "is_first_min [Some (- 80), Some (- 50 :: real)] 0"
    by (simp add: is_first_min_def All_less_Suc)
  have h3: "length [Some (- 80), Some (- 50 :: real)] = length [10, 5 :: real]" by simp
  have h4: "length [sine_table, linear_table] = length [10, 5 :: real]" by simp
  have h5: "length [10, 5 :: real] \<le> length [''sine'', ''linear'']" by simp
  show ?thesis
    using h1 h2 selection_rule [OF h1 h2 h3 h4 h5, of example_recipe]
    by (simp add: example_recipe_def default_intent_def)
qed

section \<open>Facts about eval\<close>

lemma bit_length_nat_bound: "n < 2 ^ bit_length_nat n"
proof (induction n rule: bit_length_nat.induct)
  case (1 n)
  show ?case
  proof (cases "n = 0")
    case True
    then show ?thesis by (simp add: bit_length_nat.simps)
  next
    case False
    with "1.IH" have "n div 2 < 2 ^ bit_length_nat (n div 2)" by simp
    then have "n < 2 * 2 ^ bit_length_nat (n div 2)" by linarith
    with False show ?thesis by (simp add: bit_length_nat.simps [of n])
  qed
qed

lemma to_bytes_bit_length:
  assumes "0 \<le> i"
  shows "\<exists>bs. to_bytes i (bit_length i + 7 div 8) = Inr bs"
proof -
  let ?n = "bit_length_nat (nat i)"
  have "nat i < 2 ^ ?n" by (rule bit_length_nat_bound)
  also have "(2 :: nat) ^ ?n \<le> 256 ^ ?n" by (rule power_mono) simp_all
  finally have "\<not> (256 :: nat) ^ ?n \<le> nat i" by simp
  with assms show ?thesis
    by (simp add: to_bytes_def bit_length_def)
qed

lemma recipe_hash_ok:
  assumes "0 \<le> super_hash env self"
  shows "\<exists>h. recipe_hash env self = Inr h"
proof -
  from to_bytes_bit_length [OF assms] obtain bs where
    "to_bytes (super_hash env self) (bit_length (super_hash env self) + 7 div 8) = Inr bs"
    by blast
  then show ?thesis
    by (simp add: recipe_hash_def Let_def bind_err_def)
qed

lemma eval_completes:
  assumes "recipe_hash env self = Inr h"
    and "sweep_loop env (self\<lparr>last_hash := builtin_hash env h\<rparr>)
           (map (\<lambda>wtype. cell self (cross_section1 self) (cross_section2 self) 5 wtype)
              (width_types env)) no_results = Inr st"
    and "get_best_component (width_types env) (self\<lparr>last_hash := builtin_hash env h\<rparr>)
           (optimal_lengths st) (reflection_coefficients st) (length_sweeps st) = Inr self'"
  shows "eval env self =
           \<lparr>recipe_after = self',
            messages = logged st @
              [LogInfo (map (\<lambda>i. (map (\<lambda>wtype. cell self (cross_section1 self)
                                            (cross_section2 self) 5 wtype) (width_types env) ! i,
                                  optimal_lengths st ! i, transmission_coefficients st ! i,
                                  reflection_coefficients st ! i))
                        [0 ..< length (simulated_components st)])],
            raised = None\<rparr>"
  using assms by (simp add: eval_def Let_def)

lemma eval_sweep_raises:
  assumes "recipe_hash env self = Inr h"
    and "sweep_loop env (self\<lparr>last_hash := builtin_hash env h\<rparr>)
           (map (\<lambda>wtype. cell self (cross_section1 self) (cross_section2 self) 5 wtype)
              (width_types env)) no_results = Inl (e, msgs)"
  shows "eval env self =
           \<lparr>recipe_after = self\<lparr>last_hash := builtin_hash env h\<rparr>, messages = msgs,
            raised = Some e\<rparr>"
  using assms by (simp add: eval_def Let_def)


lemma example_components:
  "map (\<lambda>wtype. cell example_recipe (cross_section1 example_recipe)
                  (cross_section2 example_recipe) 5 wtype)
     [''sine'', ''linear'', ''parabolic'']
   = [(5, ''sine''), (5, ''linear''), (5, ''parabolic'')]"
  by (simp add: example_recipe_def)

lemma example_intent: "design_intent (example_recipe\<lparr>last_hash := h\<rparr>) = default_intent"
  by (simp add: example_recipe_def)

section \<open>Length-threshold search: no crossing\<close>

lemma lossy_sweep:
  "sweep_loop lossy_lumerical (example_recipe\<lparr>last_hash := h\<rparr>)
     [(5, ''sine''), (5, ''linear''), (5, ''parabolic'')] no_results
   = Inl (KeyError, [LogWarning (5, ''parabolic'') 3 200])"
  by (simp add: lossy_lumerical_def example_lumerical_def example_intent no_results_def
      search_sine_table search_linear_table search_lossy_table Let_def)

lemma lossy_eval:
  "\<exists>h. eval lossy_lumerical example_recipe
     = \<lparr>recipe_after = example_recipe\<lparr>last_hash := h\<rparr>,
         messages = [LogWarning (5, ''parabolic'') 3 200], raised = Some KeyError\<rparr>"
proof -
  have "0 \<le> super_hash lossy_lumerical example_recipe"
    by (simp add: lossy_lumerical_def example_lumerical_def)
  from recipe_hash_ok [OF this] obtain h where
    h: "recipe_hash lossy_lumerical example_recipe = Inr h" by blast
  have w: "width_types lossy_lumerical = [''sine'', ''linear'', ''parabolic'']"
    by (simp add: lossy_lumerical_def example_lumerical_def)
  have "sweep_loop lossy_lumerical (example_recipe\<lparr>last_hash := builtin_hash lossy_lumerical h\<rparr>)
          (map (\<lambda>wtype. cell example_recipe (cross_section1 example_recipe)
                  (cross_section2 example_recipe) 5 wtype) (width_types lossy_lumerical))
          no_results
        = Inl (KeyError, [LogWarning (5, ''parabolic'') 3 200])"
    unfolding w example_components by (rule lossy_sweep)
  from eval_sweep_raises [OF h this] show ?thesis by blast
qed

text \<open>
  C3: the claim is that a candidate whose sweep never meets the routing loss is recorded
  with the stop length and the transmission and reflection of its last sample, with one
  warning, and that the sweep goes on. In the code the handler logs the warning, appends
  the stop length and then reads \<^verbatim>\<open>s21[-1]\<close>; \<^verbatim>\<open>s21\<close> is a column on the default integer
  index, where \<open>-1\<close> is not a label, so KeyError is raised and leaves \<^verbatim>\<open>eval\<close>. Here the
  sine and the linear taper are recorded, the parabolic taper never meets the routing loss
  (its first sample transmits nothing, its last a tenth of the amplitude), and \<^verbatim>\<open>eval\<close>
  ends with KeyError after the warning, without a result.
\<close>

theorem fallback_raises_key_error:
  "\<not> meets_routing_loss default_intent (lossy_table ! 0)
   \<and> \<not> meets_routing_loss default_intent (lossy_table ! 1)
   \<and> length lossy_table = 2
   \<and> length_threshold_search default_intent (5 :: real, ''parabolic'') lossy_table
       = ([LogWarning (5, ''parabolic'') 3 200], Inl KeyError)
   \<and> raised (eval lossy_lumerical example_recipe) = Some KeyError
   \<and> messages (eval lossy_lumerical example_recipe) = [LogWarning (5, ''parabolic'') 3 200]
   \<and> component (recipe_after (eval lossy_lumerical example_recipe)) = None
   \<and> length_sweep (recipe_after (eval lossy_lumerical example_recipe)) = None"
proof -
  from lossy_eval obtain h where
    e: "eval lossy_lumerical example_recipe
     = \<lparr>recipe_after = example_recipe\<lparr>last_hash := h\<rparr>,
         messages = [LogWarning (5, ''parabolic'') 3 200], raised = Some KeyError\<rparr>"
    by blast
  have n: "length lossy_table = 2" by (simp add: lossy_table_def)
  have c: "component (example_recipe\<lparr>last_hash := h\<rparr>) = None"
    "length_sweep (example_recipe\<lparr>last_hash := h\<rparr>) = None"
    by (simp_all add: example_recipe_def)
  show ?thesis
    unfolding e by (intro conjI lossy_table_rows n search_lossy_table) (simp_all add: c)
qed

section \<open>A candidate that fails to simulate\<close>

lemma sine_fails_sweep:
  "sweep_loop sine_fails_lumerical (example_recipe\<lparr>last_hash := h\<rparr>)
     [(5, ''sine''), (5, ''linear''), (5, ''parabolic'')] no_results
   = Inr \<lparr>optimal_lengths = [20, 1], transmission_coefficients = [Some 0, Some 0],
          reflection_coefficients = [Some (- 20), Some 0],
          simulated_components = [(5, ''linear''), (5, ''parabolic'')],
          sims = [''linear'', ''parabolic''],
          length_sweeps = [linear_table, parabolic_table],
          logged = [LogError ''mesh diverged'' (5, ''sine'')]\<rparr>"
  by (simp add: sine_fails_lumerical_def example_lumerical_def example_intent no_results_def
      search_linear_table search_parabolic_table Let_def)

lemma sine_fails_best:
  "get_best_component [''sine'', ''linear'', ''parabolic''] (example_recipe\<lparr>last_hash := h\<rparr>)
     [20, 1] [Some (- 20), Some 0] [linear_table, parabolic_table]
   = Inr (example_recipe\<lparr>last_hash := h, component := Some (20, ''sine''),
            length_sweep := Some linear_table\<rparr>)"
proof -
  have a: "is_first_min [20, 1 :: real] 1" by (simp add: is_first_min_def All_less_Suc)
  have b: "is_first_min [Some (- 20), Some (0 :: real)] 0"
    by (simp add: is_first_min_def All_less_Suc)
  from get_best_component_pick [OF a b, of "[linear_table, parabolic_table]"
      "[''sine'', ''linear'', ''parabolic'']" "example_recipe\<lparr>last_hash := h\<rparr>"]
  show ?thesis by (simp add: example_recipe_def default_intent_def)
qed

lemma sine_fails_eval:
  "\<exists>h. eval sine_fails_lumerical example_recipe
     = \<lparr>recipe_after = example_recipe\<lparr>last_hash := h, component := Some (20, ''sine''),
           length_sweep := Some linear_table\<rparr>,
         messages = [LogError ''mesh diverged'' (5, ''sine''),
            LogInfo [((5, ''sine''), 20, Some 0, Some (- 20)), ((5, ''linear''), 1, Some 0, Some 0)]],
         raised = None\<rparr>"
proof -
  have "0 \<le> super_hash sine_fails_lumerical example_recipe"
    by (simp add: sine_fails_lumerical_def example_lumerical_def)
  from recipe_hash_ok [OF this] obtain h where
    h: "recipe_hash sine_fails_lumerical example_recipe = Inr h" by blast
  have w: "width_types sine_fails_lumerical = [''sine'', ''linear'', ''parabolic'']"
    by (simp add: sine_fails_lumerical_def example_lumerical_def)
  let ?st = "\<lparr>optimal_lengths = [20, 1], transmission_coefficients = [Some 0, Some 0],
          reflection_coefficients = [Some (- 20), Some 0],
          simulated_components = [(5 :: real, ''linear''), (5, ''parabolic'')],
          sims = [''linear'', ''parabolic''],
          length_sweeps = [linear_table, parabolic_table],
          logged = [LogError ''mesh diverged'' (5 :: real, ''sine'')]\<rparr>"
  have s: "sweep_loop sine_fails_lumerical
          (example_recipe\<lparr>last_hash := builtin_hash sine_fails_lumerical h\<rparr>)
          (map (\<lambda>wtype. cell example_recipe (cross_section1 example_recipe)
                  (cross_section2 example_recipe) 5 wtype) (width_types sine_fails_lumerical))
          no_results = Inr ?st"
    unfolding w example_components by (rule sine_fails_sweep)
  have b: "get_best_component (width_types sine_fails_lumerical)
          (example_recipe\<lparr>last_hash := builtin_hash sine_fails_lumerical h\<rparr>)
          (optimal_lengths ?st) (reflection_coefficients ?st) (length_sweeps ?st)
        = Inr (example_recipe\<lparr>last_hash := builtin_hash sine_fails_lumerical h,
                 component := Some (20, ''sine''), length_sweep := Some linear_table\<rparr>)"
    unfolding w by (simp add: sine_fails_best)
  have "eval sine_fails_lumerical example_recipe
     = \<lparr>recipe_after = example_recipe\<lparr>last_hash := builtin_hash sine_fails_lumerical h,
           component := Some (20, ''sine''), length_sweep := Some linear_table\<rparr>,
         messages = [LogError ''mesh diverged'' (5, ''sine''),
            LogInfo [((5, ''sine''), 20, Some 0, Some (- 20)), ((5, ''linear''), 1, Some 0, Some 0)]],
         raised = None\<rparr>"
    unfolding eval_completes [OF h s b] w example_components
    by (simp add: upt_rec [of 0] upt_rec [of 1] upt_rec [of "Suc 0"])
  then show ?thesis by blast
qed

text \<open>
  C4: the claim is that the result of a sweep in which some candidate fails is computed
  over the candidates that simulated. Here the sine taper fails and is logged once, the
  sweep goes on, both other tapers meet the routing loss, and the linear taper wins on
  reflection, with its optimal length of 20 um and its sweep table; but the width type of
  the component is read from the list of all width types at the winner's index among the
  simulated candidates, so the selected geometry is a sine taper, the one candidate that
  did not simulate. The summary that is logged pairs the results with the wrong
  components in the same way.
\<close>

theorem failed_candidate_shifts_width_type:
  "LumericalEmeSimulation sine_fails_lumerical
       (cell example_recipe (cross_section1 example_recipe) (cross_section2 example_recipe) 5 ''sine'')
       (material_map example_recipe) (layer_stack example_recipe)
       (simulation_setup example_recipe) (convergence_setup example_recipe)
       (dirpath example_recipe) = Inl ''mesh diverged''
   \<and> raised (eval sine_fails_lumerical example_recipe) = None
   \<and> messages (eval sine_fails_lumerical example_recipe)
       = [LogError ''mesh diverged'' (5, ''sine''),
          LogInfo [((5, ''sine''), 20, Some 0, Some (- 20)), ((5, ''linear''), 1, Some 0, Some 0)]]
   \<and> length_sweep (recipe_after (eval sine_fails_lumerical example_recipe))
       = Some (get_length_sweep sine_fails_lumerical ''linear'' 1 200 200)
   \<and> component (recipe_after (eval sine_fails_lumerical example_recipe))
       = Some (cell example_recipe (cross_section1 example_recipe)
                 (cross_section2 example_recipe) 20 ''sine'')"
proof -
  from sine_fails_eval obtain h where
    e: "eval sine_fails_lumerical example_recipe
     = \<lparr>recipe_after = example_recipe\<lparr>last_hash := h, component := Some (20, ''sine''),
           length_sweep := Some linear_table\<rparr>,
         messages = [LogError ''mesh diverged'' (5, ''sine''),
            LogInfo [((5, ''sine''), 20, Some 0, Some (- 20)), ((5, ''linear''), 1, Some 0, Some 0)]],
         raised = None\<rparr>"
    by blast
  show ?thesis
    unfolding e by (simp add: sine_fails_lumerical_def example_lumerical_def example_recipe_def)
qed

section \<open>Ties between candidates\<close>

lemma tied_sweep:
  "sweep_loop tied_lumerical (example_recipe\<lparr>last_hash := h\<rparr>)
     [(5, ''sine''), (5, ''linear''), (5, ''parabolic'')] no_results
   = Inr \<lparr>optimal_lengths = [20, 20], transmission_coefficients = [Some 0, Some 0],
          reflection_coefficients = [Some (- 20), Some (- 20)],
          simulated_components = [(5, ''linear''), (5, ''parabolic'')],
          sims = [''linear'', ''parabolic''],
          length_sweeps = [linear_table, short_table],
          logged = [LogError ''mesh diverged'' (5, ''sine'')]\<rparr>"
  by (simp add: tied_lumerical_def sine_fails_lumerical_def example_lumerical_def example_intent
      no_results_def search_linear_table search_short_table Let_def)

lemma tied_best:
  "get_best_component [''sine'', ''linear'', ''parabolic''] (example_recipe\<lparr>last_hash := h\<rparr>)
     [20, 20] [Some (- 20), Some (- 20)] [linear_table, short_table]
   = Inr (example_recipe\<lparr>last_hash := h, component := Some (20, ''sine''),
            length_sweep := Some linear_table\<rparr>)"
proof -
  have a: "is_first_min [20, 20 :: real] 0" by (simp add: is_first_min_def All_less_Suc)
  have b: "is_first_min [Some (- 20), Some (- 20 :: real)] 0"
    by (simp add: is_first_min_def All_less_Suc)
  from get_best_component_pick [OF a b, of "[linear_table, short_table]"
      "[''sine'', ''linear'', ''parabolic'']" "example_recipe\<lparr>last_hash := h\<rparr>"]
  show ?thesis by (simp add: example_recipe_def default_intent_def)
qed

lemma tied_eval:
  "\<exists>h. eval tied_lumerical example_recipe
     = \<lparr>recipe_after = example_recipe\<lparr>last_hash := h, component := Some (20, ''sine''),
           length_sweep := Some linear_table\<rparr>,
         messages = [LogError ''mesh diverged'' (5, ''sine''),
            LogInfo [((5, ''sine''), 20, Some 0, Some (- 20)),
                     ((5, ''linear''), 20, Some 0, Some (- 20))]],
         raised = None\<rparr>"
proof -
  have "0 \<le> super_hash tied_lumerical example_recipe"
    by (simp add: tied_lumerical_def sine_fails_lumerical_def example_lumerical_def)
  from recipe_hash_ok [OF this] obtain h where
    h: "recipe_hash tied_lumerical example_recipe = Inr h" by blast
  have w: "width_types tied_lumerical = [''sine'', ''linear'', ''parabolic'']"
    by (simp add: tied_lumerical_def sine_fails_lumerical_def example_lumerical_def)
  let ?st = "\<lparr>optimal_lengths = [20, 20], transmission_coefficients = [Some 0, Some 0],
          reflection_coefficients = [Some (- 20), Some (- 20)],
          simulated_components = [(5 :: real, ''linear''), (5, ''parabolic'')],
          sims = [''linear'', ''parabolic''],
          length_sweeps = [linear_table, short_table],
          logged = [LogError ''mesh diverged'' (5 :: real, ''sine'')]\<rparr>"
  have s: "sweep_loop tied_lumerical
          (example_recipe\<lparr>last_hash := builtin_hash tied_lumerical h\<rparr>)
          (map (\<lambda>wtype. cell example_recipe (cross_section1 example_recipe)
                  (cross_section2 example_recipe) 5 wtype) (width_types tied_lumerical))
          no_results = Inr ?st"
    unfolding w example_components by (rule tied_sweep)
  have b: "get_best_component (width_types tied_lumerical)
          (example_recipe\<lparr>last_hash := builtin_hash tied_lumerical h\<rparr>)
          (optimal_lengths ?st) (reflection_coefficients ?st) (length_sweeps ?st)
        = Inr (example_recipe\<lparr>last_hash := builtin_hash tied_lumerical h,
                 component := Some (20, ''sine''), length_sweep := Some linear_table\<rparr>)"
    unfolding w by (simp add: tied_best)
  have "eval tied_lumerical example_recipe
     = \<lparr>recipe_after = example_recipe\<lparr>last_hash := builtin_hash tied_lumerical h,
           component := Some (20, ''sine''), length_sweep := Some linear_table\<rparr>,
         messages = [LogError ''mesh diverged'' (5, ''sine''),
            LogInfo [((5, ''sine''), 20, Some 0, Some (- 20)),
                     ((5, ''linear''), 20, Some 0, Some (- 20))]],
         raised = None\<rparr>"
    unfolding eval_completes [OF h s b] w example_components
    by (simp add: upt_rec [of 0] upt_rec [of 1] upt_rec [of "Suc 0"])
  then show ?thesis by blast
qed

text \<open>
  C10: the claim is that among candidates that share the smallest optimal length (or the
  smallest reflection) the one evaluated earliest in the order of the width types wins.
  The indices \<open>ind1\<close> and \<open>ind2\<close> are indeed the first positions of the minima in the lists
  of results. Here the sine taper fails, and the linear and the parabolic taper tie on
  optimal length and on reflection; the linear taper, evaluated first of the two, is at
  index 0 of the result lists, and its sweep table becomes the result, but the geometry
  that is built is the width type at index 0 of all width types: the sine taper, which is
  not one of the tied candidates.
\<close>

theorem tie_builds_failed_width_type:
  "LumericalEmeSimulation tied_lumerical
       (cell example_recipe (cross_section1 example_recipe) (cross_section2 example_recipe) 5 ''sine'')
       (material_map example_recipe) (layer_stack example_recipe)
       (simulation_setup example_recipe) (convergence_setup example_recipe)
       (dirpath example_recipe) = Inl ''mesh diverged''
   \<and> get_length_sweep tied_lumerical ''linear'' 1 200 200 = linear_table
   \<and> get_length_sweep tied_lumerical ''parabolic'' 1 200 200 = short_table
   \<and> length_threshold_search default_intent (5 :: real, ''linear'') linear_table
       = ([], Inr (20, Some 0, Some (- 20)))
   \<and> length_threshold_search default_intent (5 :: real, ''parabolic'') short_table
       = ([], Inr (20, Some 0, Some (- 20)))
   \<and> raised (eval tied_lumerical example_recipe) = None
   \<and> length_sweep (recipe_after (eval tied_lumerical example_recipe)) = Some linear_table
   \<and> linear_table \<noteq> short_table
   \<and> component (recipe_after (eval tied_lumerical example_recipe))
       = Some (cell example_recipe (cross_section1 example_recipe)
                 (cross_section2 example_recipe) 20 ''sine'')"
proof -
  from tied_eval obtain h where
    e: "eval tied_lumerical example_recipe
     = \<lparr>recipe_after = example_recipe\<lparr>last_hash := h, component := Some (20, ''sine''),
           length_sweep := Some linear_table\<rparr>,
         messages = [LogError ''mesh diverged'' (5, ''sine''),
            LogInfo [((5, ''sine''), 20, Some 0, Some (- 20)),
                     ((5, ''linear''), 20, Some 0, Some (- 20))]],
         raised = None\<rparr>"
    by blast
  have ne: "linear_table \<noteq> short_table"
    by (simp add: linear_table_def short_table_def)
  show ?thesis
    unfolding e
    by (simp add: search_linear_table search_short_table ne)
      (simp add: tied_lumerical_def sine_fails_lumerical_def example_lumerical_def
        example_recipe_def)
qed

section \<open>Fingerprint: determinism\<close>

text \<open>
  C6: two recipes with the same digest of the superclass, the same simulation settings,
  the same convergence settings and the same design intent have the same \<^verbatim>\<open>__hash__\<close>,
  whatever their other attributes are; this includes the case in which both raise.
\<close>

theorem recipe_hash_deterministic:
  assumes "super_hash env r1 = super_hash env r2"
    and "simulation_setup r1 = simulation_setup r2"
    and "convergence_setup r1 = convergence_setup r2"
    and "design_intent r1 = design_intent r2"
  shows "recipe_hash env r1 = recipe_hash env r2"
  using assms by (simp add: recipe_hash_def)

theorem recipe_hash_deterministic_witness:
  "super_hash example_lumerical example_recipe
     = super_hash example_lumerical (example_recipe\<lparr>component := Some (7, ''linear''), last_hash := 12\<rparr>)
   \<and> recipe_hash example_lumerical example_recipe
     = recipe_hash example_lumerical (example_recipe\<lparr>component := Some (7, ''linear''), last_hash := 12\<rparr>)"
proof -
  let ?r2 = "example_recipe\<lparr>component := Some (7, ''linear''), last_hash := 12\<rparr>"
  have h1: "super_hash example_lumerical example_recipe = super_hash example_lumerical ?r2"
    by (simp add: example_lumerical_def)
  have h2: "simulation_setup example_recipe = simulation_setup ?r2" by simp
  have h3: "convergence_setup example_recipe = convergence_setup ?r2" by simp
  have h4: "design_intent example_recipe = design_intent ?r2" by simp
  from recipe_hash_deterministic [OF h1 h2 h3 h4] h1 show ?thesis by simp
qed

section \<open>What eval writes\<close>

text \<open>
  C8: however \<^verbatim>\<open>eval\<close> ends, the recipe afterwards differs from the recipe before in at
  most the attributes \<^verbatim>\<open>component\<close>, \<^verbatim>\<open>length_sweep\<close> and \<^verbatim>\<open>last_hash\<close>; the design intent,
  the simulation settings and the convergence settings are those it started with.
\<close>

theorem eval_frame:
  "(\<exists>h c t. recipe_after (eval env self) = self\<lparr>component := c, length_sweep := t, last_hash := h\<rparr>)
   \<and> design_intent (recipe_after (eval env self)) = design_intent self
   \<and> simulation_setup (recipe_after (eval env self)) = simulation_setup self
   \<and> convergence_setup (recipe_after (eval env self)) = convergence_setup self"
proof -
  have "\<exists>h c t. recipe_after (eval env self) = self\<lparr>component := c, length_sweep := t, last_hash := h\<rparr>"
  proof (cases "recipe_hash env self")
    case (Inl e)
    then have "recipe_after (eval env self) = self" by (simp add: eval_def)
    then have "recipe_after (eval env self)
                 = self\<lparr>component := component self, length_sweep := length_sweep self,
                        last_hash := last_hash self\<rparr>" by simp
    then show ?thesis by blast
  next
    case (Inr h)
    let ?self = "self\<lparr>last_hash := builtin_hash env h\<rparr>"
    let ?comps = "map (\<lambda>wtype. cell ?self (cross_section1 ?self) (cross_section2 ?self) 5 wtype)
                    (width_types env)"
    show ?thesis
    proof (cases "sweep_loop env ?self ?comps no_results")
      case (Inl el)
      with Inr have "recipe_after (eval env self) = ?self"
        by (simp add: eval_def Let_def split: prod.splits)
      then have "recipe_after (eval env self)
                 = self\<lparr>component := component self, length_sweep := length_sweep self,
                        last_hash := builtin_hash env h\<rparr>" by simp
      then show ?thesis by blast
    next
      case st: (Inr st)
      show ?thesis
      proof (cases "get_best_component (width_types env) ?self (optimal_lengths st)
                      (reflection_coefficients st) (length_sweeps st)")
        case (Inl e)
        with Inr st have "recipe_after (eval env self) = ?self"
          by (simp add: eval_def Let_def)
        then have "recipe_after (eval env self)
                 = self\<lparr>component := component self, length_sweep := length_sweep self,
                        last_hash := builtin_hash env h\<rparr>" by simp
        then show ?thesis by blast
      next
        case best: (Inr self')
        from get_best_component_frame [OF best] obtain c t where
          "self' = ?self\<lparr>component := c, length_sweep := t\<rparr>" by blast
        with Inr st best have "recipe_after (eval env self)
            = self\<lparr>component := c, length_sweep := t, last_hash := builtin_hash env h\<rparr>"
          by (simp add: eval_def Let_def)
        then show ?thesis by blast
      qed
    qed
  qed
  then obtain h c t where
    e: "recipe_after (eval env self) = self\<lparr>component := c, length_sweep := t, last_hash := h\<rparr>"
    by blast
  show ?thesis
    unfolding e by auto
qed

section \<open>Every candidate fails\<close>

lemma sweep_loop_all_fail:
  assumes "\<forall>cand \<in> set cands. \<exists>err. LumericalEmeSimulation env cand (material_map self)
             (layer_stack self) (simulation_setup self) (convergence_setup self) (dirpath self)
             = Inl err"
  shows "\<exists>st'. sweep_loop env self cands st = Inr st'
           \<and> optimal_lengths st' = optimal_lengths st
           \<and> reflection_coefficients st' = reflection_coefficients st
           \<and> length_sweeps st' = length_sweeps st"
  using assms
proof (induction cands arbitrary: st)
  case Nil
  show ?case by simp
next
  case (Cons cand cands)
  from Cons.prems obtain err where
    err: "LumericalEmeSimulation env cand (material_map self) (layer_stack self)
            (simulation_setup self) (convergence_setup self) (dirpath self) = Inl err"
    by auto
  from Cons.prems have rest: "\<forall>cand \<in> set cands. \<exists>err. LumericalEmeSimulation env cand
      (material_map self) (layer_stack self) (simulation_setup self) (convergence_setup self)
      (dirpath self) = Inl err"
    by simp
  from Cons.IH [OF rest, of "st\<lparr>logged := logged st @ [LogError err cand]\<rparr>"]
  show ?case
    unfolding sweep_loop_failed [OF err] by simp
qed

lemma eval_all_fail:
  assumes "0 \<le> super_hash env self"
    and "\<forall>w \<in> set (width_types env). \<exists>err.
           LumericalEmeSimulation env (cell self (cross_section1 self) (cross_section2 self) 5 w)
             (material_map self) (layer_stack self) (simulation_setup self)
             (convergence_setup self) (dirpath self) = Inl err"
  shows "raised (eval env self) = Some ValueError
         \<and> component (recipe_after (eval env self)) = component self
         \<and> length_sweep (recipe_after (eval env self)) = length_sweep self"
proof -
  from recipe_hash_ok [OF assms(1)] obtain h where h: "recipe_hash env self = Inr h" by blast
  let ?self = "self\<lparr>last_hash := builtin_hash env h\<rparr>"
  let ?comps = "map (\<lambda>wtype. cell ?self (cross_section1 ?self) (cross_section2 ?self) 5 wtype)
                  (width_types env)"
  have "\<forall>cand \<in> set ?comps. \<exists>err. LumericalEmeSimulation env cand (material_map ?self)
          (layer_stack ?self) (simulation_setup ?self) (convergence_setup ?self) (dirpath ?self)
          = Inl err"
    using assms(2) by simp
  from sweep_loop_all_fail [OF this, of no_results] obtain st where
    st: "sweep_loop env ?self ?comps no_results = Inr st"
      "optimal_lengths st = []" "reflection_coefficients st = []" "length_sweeps st = []"
    by (auto simp: no_results_def)
  show ?thesis
    using h st by (simp add: eval_def Let_def get_best_component_empty)
qed

lemma failing_lumerical_all_fail:
  "\<forall>w \<in> set (width_types failing_lumerical). \<exists>err.
     LumericalEmeSimulation failing_lumerical
       (cell example_recipe (cross_section1 example_recipe) (cross_section2 example_recipe) 5 w)
       (material_map example_recipe) (layer_stack example_recipe) (simulation_setup example_recipe)
       (convergence_setup example_recipe) (dirpath example_recipe) = Inl err"
  by (simp add: failing_lumerical_def example_lumerical_def)

lemma failing_lumerical_hash: "0 \<le> super_hash failing_lumerical example_recipe"
  by (simp add: failing_lumerical_def example_lumerical_def)

text \<open>
  C7, as stated: when the constructor raises for every candidate, the exception that
  leaves \<^verbatim>\<open>eval\<close> is an index or lookup error. It is not: with the simulator that always
  raises, neither IndexError nor KeyError leaves \<^verbatim>\<open>eval\<close>.
\<close>

theorem all_candidates_fail_counterexample:
  "\<not> (raised (eval failing_lumerical example_recipe) = Some IndexError
       \<or> raised (eval failing_lumerical example_recipe) = Some KeyError)"
  using eval_all_fail [OF failing_lumerical_hash failing_lumerical_all_fail] by simp

text \<open>
  C7, amended: when the fingerprint can be computed (the digest of the superclass is not
  negative) and the constructor raises for every candidate, \<^verbatim>\<open>eval\<close> selects no geometry:
  \<^verbatim>\<open>component\<close> and \<^verbatim>\<open>length_sweep\<close> keep their values, and the exception that leaves the
  selection step is the ValueError of \<^verbatim>\<open>min\<close> on an empty list, not an error kind of its
  own.
\<close>

theorem all_candidates_fail_value_error:
  assumes "0 \<le> super_hash env self"
    and "\<forall>w \<in> set (width_types env). \<exists>err.
           LumericalEmeSimulation env (cell self (cross_section1 self) (cross_section2 self) 5 w)
             (material_map self) (layer_stack self) (simulation_setup self)
             (convergence_setup self) (dirpath self) = Inl err"
  shows "raised (eval env self) = Some ValueError
         \<and> component (recipe_after (eval env self)) = component self
         \<and> length_sweep (recipe_after (eval env self)) = length_sweep self"
  using assms by (rule eval_all_fail)

theorem all_candidates_fail_value_error_witness:
  "0 \<le> super_hash failing_lumerical example_recipe
   \<and> width_types failing_lumerical = [''sine'', ''linear'', ''parabolic'']
   \<and> LumericalEmeSimulation failing_lumerical
       (cell example_recipe (cross_section1 example_recipe) (cross_section2 example_recipe) 5 ''sine'')
       (material_map example_recipe) (layer_stack example_recipe) (simulation_setup example_recipe)
       (convergence_setup example_recipe) (dirpath example_recipe) = Inl ''no licence''
   \<and> LumericalEmeSimulation failing_lumerical
       (cell example_recipe (cross_section1 example_recipe) (cross_section2 example_recipe) 5 ''linear'')
       (material_map example_recipe) (layer_stack example_recipe) (simulation_setup example_recipe)
       (convergence_setup example_recipe) (dirpath example_recipe) = Inl ''no licence''
   \<and> LumericalEmeSimulation failing_lumerical
       (cell example_recipe (cross_section1 example_recipe) (cross_section2 example_recipe) 5
          ''parabolic'')
       (material_map example_recipe) (layer_stack example_recipe) (simulation_setup example_recipe)
       (convergence_setup example_recipe) (dirpath example_recipe) = Inl ''no licence''
   \<and> raised (eval failing_lumerical example_recipe) = Some ValueError
   \<and> component (recipe_after (eval failing_lumerical example_recipe)) = None
   \<and> length_sweep (recipe_after (eval failing_lumerical example_recipe)) = None"
  using all_candidates_fail_value_error [OF failing_lumerical_hash failing_lumerical_all_fail]
    failing_lumerical_hash
  by (simp add: example_recipe_def failing_lumerical_def example_lumerical_def)

section \<open>Dopant check of the process file\<close>






















section \<open>The winner and its sweep table\<close>











end
